theory Spec2Isabelle
  imports Main "HOL-Library.Word" "HOL-Library.List_Lexorder" "HOL-Library.Char_ord"
    "HOL-Library.Product_Lexorder" "HOL-Library.Multiset"
begin

section \<open>Live Azaan: a shallow embedding of the streaming core\<close>

text \<open>
  The development follows the Python sources of the repository module by module:
  \<^verbatim>\<open>priority.py\<close> (the listener's ranked subscriptions), \<^verbatim>\<open>noise_reduction.py\<close>
  (the per-chunk conditioner), \<^verbatim>\<open>stream_sender.py\<close> (the broadcaster session),
  \<^verbatim>\<open>offline_player.py\<close> and the two listener entry points of \<^verbatim>\<open>main.py\<close>.
  Python exceptions are values of \<open>py_error\<close>; a method that can raise returns
  \<open>py_error + 'a\<close> with \<open>Inl\<close> for the exception. Mutation of \<open>self\<close> is explicit
  state passing. Python strings are byte strings in UTF-8, whose lexicographic byte
  order coincides with Python's code-point order.
\<close>

subsection \<open>Exceptions\<close>

datatype py_error =
    ValueError string
  | OSError string
  | FileNotFoundError string
  | AudioopError string
  | OtherError string

text \<open>\<^verbatim>\<open>str(exc)\<close> for an exception built from one message.\<close>

fun exc_str :: "py_error \<Rightarrow> string" where
  "exc_str (ValueError m) = m"
| "exc_str (OSError m) = m"
| "exc_str (FileNotFoundError m) = m"
| "exc_str (AudioopError m) = m"
| "exc_str (OtherError m) = m"

text \<open>
  The clause \<^verbatim>\<open>except (ValueError, OSError)\<close>: \<^verbatim>\<open>FileNotFoundError\<close> is a subclass of
  \<^verbatim>\<open>OSError\<close>; \<^verbatim>\<open>audioop.error\<close> and the remaining exceptions derive from
  \<^verbatim>\<open>Exception\<close> directly.
\<close>

fun is_ValueError_or_OSError :: "py_error \<Rightarrow> bool" where
  "is_ValueError_or_OSError (ValueError m) = True"
| "is_ValueError_or_OSError (OSError m) = True"
| "is_ValueError_or_OSError (FileNotFoundError m) = True"
| "is_ValueError_or_OSError (AudioopError m) = False"
| "is_ValueError_or_OSError (OtherError m) = False"

fun is_FileNotFoundError :: "py_error \<Rightarrow> bool" where
  "is_FileNotFoundError (FileNotFoundError m) = True"
| "is_FileNotFoundError e = False"

subsection \<open>priority.py\<close>

text \<open>
  \<^verbatim>\<open>@dataclass(order=True) class MasjidPriority\<close> with the fields in declaration order.
  The generated comparison methods compare the tuples
  \<^verbatim>\<open>(priority, masjid_id, enabled)\<close>; on \<open>int \<times> string \<times> bool\<close> the lexicographic
  product order, the lexicographic list order on characters and \<open>False < True\<close> are
  the orders Python uses on tuples, \<^verbatim>\<open>str\<close> and \<^verbatim>\<open>bool\<close>.
\<close>

record MasjidPriority =
  priority :: int
  masjid_id :: string
  enabled :: bool

definition order_tuple :: "MasjidPriority \<Rightarrow> int \<times> string \<times> bool" where
  "order_tuple p = (priority p, masjid_id p, enabled p)"

text \<open>
  \<^verbatim>\<open>sorted(xs)\<close> and \<^verbatim>\<open>xs.sort()\<close>: a stable sort by the dataclass order, returning
  (respectively storing) the sorted list.
\<close>

definition py_sorted :: "MasjidPriority list \<Rightarrow> MasjidPriority list" where
  "py_sorted xs = sort_key order_tuple xs"

record PriorityManager =
  priority_list :: "MasjidPriority list"

definition PriorityManager_init :: PriorityManager where
  "PriorityManager_init = \<lparr>priority_list = []\<rparr>"

definition set_priority :: "PriorityManager \<Rightarrow> string \<Rightarrow> int \<Rightarrow> bool \<Rightarrow> PriorityManager" where
  "set_priority self mid prio en =
     self\<lparr>priority_list :=
       py_sorted (filter (\<lambda>p. masjid_id p \<noteq> mid) (priority_list self)
                  @ [\<lparr>priority = prio, masjid_id = mid, enabled = en\<rparr>])\<rparr>"

text \<open>The loop of \<^verbatim>\<open>set_enabled\<close>: the first item with the id is updated, then \<^verbatim>\<open>break\<close>.\<close>

fun set_enabled_loop :: "MasjidPriority list \<Rightarrow> string \<Rightarrow> bool \<Rightarrow> MasjidPriority list" where
  "set_enabled_loop [] mid en = []"
| "set_enabled_loop (item # rest) mid en =
     (if masjid_id item = mid then item\<lparr>enabled := en\<rparr> # rest
      else item # set_enabled_loop rest mid en)"

definition set_enabled :: "PriorityManager \<Rightarrow> string \<Rightarrow> bool \<Rightarrow> PriorityManager" where
  "set_enabled self mid en =
     self\<lparr>priority_list := set_enabled_loop (priority_list self) mid en\<rparr>"

text \<open>
  The loop of \<^verbatim>\<open>highest_priority_live\<close> over the sorted copy; falling off the end
  returns \<^verbatim>\<open>None\<close>.
\<close>

fun first_live :: "MasjidPriority list \<Rightarrow> string list \<Rightarrow> string option" where
  "first_live [] live_masjid_ids = None"
| "first_live (item # rest) live_masjid_ids =
     (if enabled item \<and> masjid_id item \<in> set live_masjid_ids then Some (masjid_id item)
      else first_live rest live_masjid_ids)"

text \<open>
  The two queries return their result together with the manager after the call, so
  that what they leave behind is part of the model.
\<close>

definition highest_priority_live ::
    "PriorityManager \<Rightarrow> string list \<Rightarrow> string option \<times> PriorityManager" where
  "highest_priority_live self live_masjid_ids =
     (first_live (py_sorted (priority_list self)) live_masjid_ids, self)"

text \<open>A Python dict literal is an association list in insertion order.\<close>

datatype py_value = PyStr string | PyInt int | PyBool bool

type_synonym py_dict = "(string \<times> py_value) list"

definition entry_dict :: "MasjidPriority \<Rightarrow> py_dict" where
  "entry_dict p =
     [(''masjid_id'', PyStr (masjid_id p)),
      (''priority'', PyInt (priority p)),
      (''enabled'', PyBool (enabled p))]"

definition as_dicts :: "PriorityManager \<Rightarrow> py_dict list \<times> PriorityManager" where
  "as_dicts self = (map entry_dict (py_sorted (priority_list self)), self)"

text \<open>The uniqueness invariant of the registry: at most one entry per id.\<close>

definition unique_ids :: "PriorityManager \<Rightarrow> bool" where
  "unique_ids self = distinct (map masjid_id (priority_list self))"

text \<open>An entry qualifies for selection when it is enabled and its id is live.\<close>

definition qualifies :: "string list \<Rightarrow> MasjidPriority \<Rightarrow> bool" where
  "qualifies live_masjid_ids p = (enabled p \<and> masjid_id p \<in> set live_masjid_ids)"

subsection \<open>noise\_reduction.py\<close>

type_synonym byte = "8 word"
type_synonym bytes = "byte list"

text \<open>
  \<^verbatim>\<open>audioop.rms(fragment, width)\<close> of the standard library: the width must be 1 to 4
  and the fragment a whole number of samples, otherwise \<^verbatim>\<open>audioop.error\<close> is raised;
  the result is 0 for the empty fragment and otherwise the square root of the mean of
  the squared samples, truncated to an integer. Samples are signed, little-endian.
  The library sums the squares, divides and takes the root in double precision. That
  arithmetic is not modelled: it is the parameter \<open>rms_value\<close>, a function from the
  samples of the fragment to the integer the library returns for them.
\<close>

fun le_uint :: "bytes \<Rightarrow> nat" where
  "le_uint [] = 0"
| "le_uint (b # bs) = unat b + 256 * le_uint bs"

definition raw_sample :: "bytes \<Rightarrow> int" where
  "raw_sample bs =
     (let u = int (le_uint bs); m = 2 ^ (8 * length bs)
      in if m \<le> 2 * u then u - m else u)"

function samples :: "nat \<Rightarrow> bytes \<Rightarrow> int list" where
  "samples w data =
     (if w = 0 \<or> data = [] then []
      else raw_sample (take w data) # samples w (drop w data))"
  by pat_completeness auto
termination
  by (relation "measure (\<lambda>(w, data). length data)") auto

definition audioop_rms :: "(int list \<Rightarrow> int) \<Rightarrow> bytes \<Rightarrow> int \<Rightarrow> py_error + int" where
  "audioop_rms rms_value fragment width =
     (if width < 1 \<or> 4 < width then Inl (AudioopError ''Size should be 1, 2, 3 or 4'')
      else if int (length fragment) mod width \<noteq> 0
        then Inl (AudioopError ''not a whole number of frames'')
      else if fragment = [] then Inr 0
      else Inr (rms_value (samples (nat width) fragment)))"

text \<open>
  \<^verbatim>\<open>NoiseReducer\<close>: \<open>rn\<close> is the neural suppressor chosen at construction, \<open>None\<close>
  when the \<^verbatim>\<open>rnnoise\<close> module is absent. Its \<^verbatim>\<open>process_frame\<close> is code outside the
  repository: any function from a frame to bytes or an exception. The constructor's
  defaults are sample width 2 and threshold 350.
\<close>

record NoiseReducer =
  sample_width :: int
  gate_threshold :: int
  rn :: "(bytes \<Rightarrow> py_error + bytes) option"

definition NoiseReducer_init ::
    "(bytes \<Rightarrow> py_error + bytes) option \<Rightarrow> int \<Rightarrow> int \<Rightarrow> NoiseReducer" where
  "NoiseReducer_init rnnoise_module sw threshold =
     \<lparr>sample_width = sw, gate_threshold = threshold, rn = rnnoise_module\<rparr>"

definition reduce_noise_gate ::
    "(int list \<Rightarrow> int) \<Rightarrow> NoiseReducer \<Rightarrow> bytes \<Rightarrow> py_error + bytes" where
  "reduce_noise_gate rms_value self audio_data =
     (case audioop_rms rms_value audio_data (sample_width self) of
        Inl e \<Rightarrow> Inl e
      | Inr rms \<Rightarrow>
          if rms < gate_threshold self then Inr (replicate (length audio_data) 0)
          else Inr audio_data)"

text \<open>
  The loop of \<^verbatim>\<open>_reduce_rnnoise\<close> for a positive frame size: \<open>i\<close> runs over
  \<^verbatim>\<open>range(0, len(audio_data), frame_size)\<close>, \<open>cleaned\<close> is the bytearray. The
  slice \<^verbatim>\<open>audio_data[i : i + frame_size]\<close> is \<open>take frame_size (drop i audio_data)\<close>.
  The test \<open>frame_size = 0\<close> only makes the recursion total; \<open>reduce_rnnoise\<close> below
  never passes 0.
\<close>

function rnnoise_loop ::
    "(bytes \<Rightarrow> py_error + bytes) \<Rightarrow> nat \<Rightarrow> bytes \<Rightarrow> nat \<Rightarrow> bytes \<Rightarrow> py_error + bytes" where
  "rnnoise_loop process_frame frame_size audio_data i cleaned =
     (if frame_size = 0 \<or> length audio_data \<le> i then Inr cleaned
      else let chunk = take frame_size (drop i audio_data)
           in if length chunk < frame_size
              then rnnoise_loop process_frame frame_size audio_data (i + frame_size)
                     (cleaned @ chunk)
              else (case process_frame chunk of
                      Inl e \<Rightarrow> Inl e
                    | Inr out \<Rightarrow>
                        rnnoise_loop process_frame frame_size audio_data (i + frame_size)
                          (cleaned @ out)))"
  by pat_completeness auto
termination
  by (relation "measure (\<lambda>(pf, fs, data, i, cleaned). length data - i)") auto

text \<open>
  \<^verbatim>\<open>range\<close> with step 0 raises \<^verbatim>\<open>ValueError\<close>; with a negative step and a
  non-negative stop it is empty.
\<close>

definition reduce_rnnoise ::
    "NoiseReducer \<Rightarrow> (bytes \<Rightarrow> py_error + bytes) \<Rightarrow> bytes \<Rightarrow> py_error + bytes" where
  "reduce_rnnoise self process_frame audio_data =
     (let frame_size = 480 * sample_width self
      in if frame_size = 0 then Inl (ValueError ''range() arg 3 must not be zero'')
         else if frame_size < 0 then Inr []
         else rnnoise_loop process_frame (nat frame_size) audio_data 0 [])"

definition reduce_noise ::
    "(int list \<Rightarrow> int) \<Rightarrow> NoiseReducer \<Rightarrow> bytes \<Rightarrow> py_error + bytes" where
  "reduce_noise rms_value self audio_data =
     (if audio_data = [] then Inr audio_data
      else (case rn self of
              Some process_frame \<Rightarrow> reduce_rnnoise self process_frame audio_data
            | None \<Rightarrow> reduce_noise_gate rms_value self audio_data))"

text \<open>The full frames of an input and its trailing partial frame.\<close>

definition full_frames :: "nat \<Rightarrow> bytes \<Rightarrow> bytes list" where
  "full_frames frame_size audio_data =
     map (\<lambda>k. take frame_size (drop (k * frame_size) audio_data))
       [0 ..< length audio_data div frame_size]"

definition partial_frame :: "nat \<Rightarrow> bytes \<Rightarrow> bytes" where
  "partial_frame frame_size audio_data =
     drop (length audio_data div frame_size * frame_size) audio_data"

subsection \<open>stream\_sender.py\<close>

record LiveStreamSender =
  host :: string
  port :: int
  channels :: int
  rate :: int
  chunk :: int
  ca_cert :: "string option"
  reducer :: NoiseReducer
  running :: bool
  thread :: "nat option"

text \<open>
  The constructor as \<^verbatim>\<open>main.py\<close> calls it, with host and port and the defaults for
  the other parameters; the reducer is \<^verbatim>\<open>NoiseReducer()\<close>.
\<close>

definition LiveStreamSender_init ::
    "(bytes \<Rightarrow> py_error + bytes) option \<Rightarrow> string \<Rightarrow> int \<Rightarrow> LiveStreamSender" where
  "LiveStreamSender_init rnnoise_module h p =
     \<lparr>host = h, port = p, channels = 1, rate = 16000, chunk = 1024, ca_cert = None,
      reducer = NoiseReducer_init rnnoise_module 2 350, running = False, thread = None\<rparr>"

text \<open>
  The threads of the process, as far as the session touches them: the handles of the
  threads started so far, in order, and the handles \<^verbatim>\<open>join\<close> was called on. A new
  \<^verbatim>\<open>threading.Thread\<close> gets the next free handle.
\<close>

record runtime =
  started_threads :: "nat list"
  joined_threads :: "nat list"

definition LiveStreamSender_start ::
    "LiveStreamSender \<Rightarrow> runtime \<Rightarrow> LiveStreamSender \<times> runtime" where
  "LiveStreamSender_start self rt =
     (if running self then (self, rt)
      else let t = length (started_threads rt)
           in (self\<lparr>running := True, thread := Some t\<rparr>,
               rt\<lparr>started_threads := started_threads rt @ [t]\<rparr>))"

text \<open>
  \<^verbatim>\<open>join(timeout=2)\<close> waits for the worker for at most two seconds and changes
  nothing of the session.
\<close>

definition LiveStreamSender_stop ::
    "LiveStreamSender \<Rightarrow> runtime \<Rightarrow> LiveStreamSender \<times> runtime" where
  "LiveStreamSender_stop self rt =
     (let self' = self\<lparr>running := False\<rparr>
      in case thread self' of
           Some t \<Rightarrow> (self', rt\<lparr>joined_threads := joined_threads rt @ [t]\<rparr>)
         | None \<Rightarrow> (self', rt))"

text \<open>
  What the worker \<^verbatim>\<open>_run_stream\<close> meets outside the program: whether the audio
  device opens, whether the TLS context is built, whether the TCP connection and the
  handshake succeed, what the \<open>i\<close>-th read and send do, and how many times the loop
  test \<^verbatim>\<open>while self._running\<close> finds the flag set before \<^verbatim>\<open>stop\<close> clears it.
  \<open>None\<close> is success, \<open>Some e\<close> the exception raised.
\<close>

record stream_env =
  device_open :: "py_error option"
  ssl_context :: "string option \<Rightarrow> py_error option"
  create_connection :: "string \<Rightarrow> int \<Rightarrow> py_error option"
  wrap_socket :: "string \<Rightarrow> py_error option"
  mic_read :: "nat \<Rightarrow> py_error + bytes"
  sendall :: "nat \<Rightarrow> bytes \<Rightarrow> py_error option"
  running_checks :: nat

text \<open>
  The outcome of a worker: the exception that ended it (if any), whether the
  \<^verbatim>\<open>finally\<close> block released the device, and the chunks written to the socket.
  The worker conditions each chunk with \<open>reduce_noise\<close>, so it takes the library's
  loudness function \<open>rms_value\<close> as well.
\<close>

record worker_result =
  worker_error :: "py_error option"
  device_released :: bool
  sent :: "bytes list"

fun stream_loop ::
    "(int list \<Rightarrow> int) \<Rightarrow> stream_env \<Rightarrow> NoiseReducer \<Rightarrow> nat \<Rightarrow> nat \<Rightarrow> bytes list
      \<Rightarrow> py_error option \<times> bytes list" where
  "stream_loop rms_value env red 0 i out = (None, out)"
| "stream_loop rms_value env red (Suc n) i out =
     (case mic_read env i of
        Inl e \<Rightarrow> (Some e, out)
      | Inr data \<Rightarrow>
          (case reduce_noise rms_value red data of
             Inl e \<Rightarrow> (Some e, out)
           | Inr cleaned \<Rightarrow>
               (case sendall env i cleaned of
                  Some e \<Rightarrow> (Some e, out)
                | None \<Rightarrow> stream_loop rms_value env red n (Suc i) (out @ [cleaned]))))"

definition run_stream ::
    "(int list \<Rightarrow> int) \<Rightarrow> stream_env \<Rightarrow> LiveStreamSender \<Rightarrow> worker_result" where
  "run_stream rms_value env self =
     (case device_open env of
        Some e \<Rightarrow> \<lparr>worker_error = Some e, device_released = False, sent = []\<rparr>
      | None \<Rightarrow>
          (case ssl_context env (ca_cert self) of
             Some e \<Rightarrow> \<lparr>worker_error = Some e, device_released = True, sent = []\<rparr>
           | None \<Rightarrow>
               (case create_connection env (host self) (port self) of
                  Some e \<Rightarrow> \<lparr>worker_error = Some e, device_released = True, sent = []\<rparr>
                | None \<Rightarrow>
                    (case wrap_socket env (host self) of
                       Some e \<Rightarrow> \<lparr>worker_error = Some e, device_released = True, sent = []\<rparr>
                     | None \<Rightarrow>
                         (case stream_loop rms_value env (reducer self) (running_checks env) 0 [] of
                            (err, out) \<Rightarrow>
                              \<lparr>worker_error = err, device_released = True, sent = out\<rparr>)))))"

subsection \<open>offline\_player.py\<close>

text \<open>
  \<^verbatim>\<open>str.lower\<close> on the ASCII letters; the keys of the track table are ASCII.
\<close>

definition py_lower :: "string \<Rightarrow> string" where
  "py_lower s =
     map (\<lambda>c. if CHR ''A'' \<le> c \<and> c \<le> CHR ''Z'' then char_of (of_char c + (32::nat)) else c) s"

record sound =
  source :: string
  playing :: bool

record OfflineAzaanPlayer =
  tracks :: "(string \<times> string) list"
  current_sound :: "sound option"

text \<open>\<^verbatim>\<open>Path(assets_dir) / name\<close> for a plain relative directory name, as a POSIX path.\<close>

definition OfflineAzaanPlayer_init :: "string \<Rightarrow> OfflineAzaanPlayer" where
  "OfflineAzaanPlayer_init assets_dir =
     \<lparr>tracks =
        [(''fajr'', assets_dir @ ''/fajr.mp3''),
         (''zuhr'', assets_dir @ ''/zuhr.mp3''),
         (''asr'', assets_dir @ ''/asr.mp3''),
         (''maghrib'', assets_dir @ ''/maghrib.mp3''),
         (''isha'', assets_dir @ ''/isha.mp3'')],
      current_sound = None\<rparr>"

definition OfflineAzaanPlayer_stop :: "OfflineAzaanPlayer \<Rightarrow> OfflineAzaanPlayer" where
  "OfflineAzaanPlayer_stop self =
     (case current_sound self of
        Some playing_sound \<Rightarrow> self\<lparr>current_sound := None\<rparr>
      | None \<Rightarrow> self)"

text \<open>
  The file system and the sound loader are outside the program: \<open>exists\<close> says
  whether a path exists, \<open>load\<close> whether \<^verbatim>\<open>SoundLoader.load\<close> returns a sound.
\<close>

definition OfflineAzaanPlayer_play ::
    "(string \<Rightarrow> bool) \<Rightarrow> (string \<Rightarrow> bool) \<Rightarrow> OfflineAzaanPlayer \<Rightarrow> string
      \<Rightarrow> py_error + OfflineAzaanPlayer" where
  "OfflineAzaanPlayer_play exists load self prayer_name =
     (case map_of (tracks self) (py_lower prayer_name) of
        None \<Rightarrow> Inl (FileNotFoundError (''Offline track not found for prayer: '' @ prayer_name))
      | Some path \<Rightarrow>
          if \<not> exists path
          then Inl (FileNotFoundError (''Offline track not found for prayer: '' @ prayer_name))
          else let self' = OfflineAzaanPlayer_stop self
               in if load path
                  then Inr (self'\<lparr>current_sound := Some \<lparr>source = path, playing = True\<rparr>\<rparr>)
                  else Inr (self'\<lparr>current_sound := None\<rparr>))"

subsection \<open>main.py: the listener's entry points\<close>

text \<open>
  The collaborators of \<^verbatim>\<open>listen_live\<close> that are not part of the sources: the
  built-ins \<^verbatim>\<open>str.strip\<close> and \<^verbatim>\<open>int\<close>, the class \<^verbatim>\<open>LiveStreamReceiver\<close> (its
  constructor and its \<^verbatim>\<open>start\<close>, over a receiver type \<open>'r\<close>), the file system and the
  sound loader. Each is a parameter; the theorems hold for all of them.
\<close>

record 'r listen_env =
  str_strip :: "string \<Rightarrow> string"
  int_of_str :: "string \<Rightarrow> py_error + int"
  receiver_init :: "string \<Rightarrow> int \<Rightarrow> py_error + 'r"
  receiver_start :: "'r \<Rightarrow> py_error + 'r"
  path_exists :: "string \<Rightarrow> bool"
  sound_load :: "string \<Rightarrow> bool"

text \<open>The fields of the application that the listener's entry points read or write.\<close>

record 'r LiveAzaanApp =
  stream_status :: string
  receiver :: "'r option"
  offline_player :: OfflineAzaanPlayer

definition play_offline ::
    "'r listen_env \<Rightarrow> 'r LiveAzaanApp \<Rightarrow> string \<Rightarrow> py_error + 'r LiveAzaanApp" where
  "play_offline env self prayer_name =
     (case OfflineAzaanPlayer_play (path_exists env) (sound_load env) (offline_player self)
             prayer_name of
        Inr player \<Rightarrow> Inr (self\<lparr>offline_player := player\<rparr>)
      | Inl exc \<Rightarrow>
          if is_FileNotFoundError exc then Inr (self\<lparr>stream_status := exc_str exc\<rparr>)
          else Inl exc)"

text \<open>The handler \<^verbatim>\<open>except (ValueError, OSError) as exc\<close> of \<^verbatim>\<open>listen_live\<close>.\<close>

definition listen_failed ::
    "'r listen_env \<Rightarrow> 'r LiveAzaanApp \<Rightarrow> py_error \<Rightarrow> py_error + 'r LiveAzaanApp" where
  "listen_failed env self exc =
     (if is_ValueError_or_OSError exc
      then play_offline env (self\<lparr>stream_status := ''Listen failed: '' @ exc_str exc\<rparr>) ''fajr''
      else Inl exc)"

definition listen_live ::
    "'r listen_env \<Rightarrow> 'r LiveAzaanApp \<Rightarrow> string \<Rightarrow> string \<Rightarrow> py_error + 'r LiveAzaanApp" where
  "listen_live env self h p =
     (let h' = str_strip env h
      in case int_of_str env p of
           Inl exc \<Rightarrow> listen_failed env self exc
         | Inr n \<Rightarrow>
             (case receiver_init env h' n of
                Inl exc \<Rightarrow> listen_failed env self exc
              | Inr r \<Rightarrow>
                  (case receiver_start env r of
                     Inl exc \<Rightarrow> listen_failed env (self\<lparr>receiver := Some r\<rparr>) exc
                   | Inr r' \<Rightarrow>
                       Inr (self\<lparr>receiver := Some r', stream_status := ''Listening''\<rparr>))))"

subsection \<open>Example states\<close>

text \<open>The registry of the end-to-end scenario and a registry with an entry for \<open>x\<close>.\<close>

definition registry_AB :: PriorityManager where
  "registry_AB = \<lparr>priority_list =
     [\<lparr>priority = 1, masjid_id = ''masjidA'', enabled = True\<rparr>,
      \<lparr>priority = 2, masjid_id = ''masjidB'', enabled = True\<rparr>]\<rparr>"

definition registry_X :: PriorityManager where
  "registry_X = \<lparr>priority_list =
     [\<lparr>priority = 1, masjid_id = ''a'', enabled = True\<rparr>,
      \<lparr>priority = 5, masjid_id = ''x'', enabled = True\<rparr>]\<rparr>"

text \<open>
  A loudness function for the examples: the integer square root of the integer mean
  of the squares, in exact arithmetic. On the small 16-bit samples of the examples it
  is the value the library computes; for large samples the library's doubles can
  differ from it. The general theorems hold for every loudness function; this one
  only instantiates the examples.
\<close>

fun isqrt :: "nat \<Rightarrow> nat" where
  "isqrt n =
     (if n = 0 then 0
      else let r = 2 * isqrt (n div 4)
           in if (r + 1) * (r + 1) \<le> n then r + 1 else r)"

definition exact_rms_value :: "int list \<Rightarrow> int" where
  "exact_rms_value vs =
     int (isqrt (nat (sum_list (map (\<lambda>v. v * v) vs)) div length vs))"

text \<open>A stand-in for the neural suppressor: it returns a silent frame of the same size.\<close>

definition zero_suppressor :: "bytes \<Rightarrow> py_error + bytes" where
  "zero_suppressor frame = Inr (replicate (length frame) 0)"

text \<open>
  A process with no thread started, and two environments of the sender's worker: one
  in which the relay refuses the connection and one in which the audio device does
  not open.
\<close>

definition fresh_runtime :: runtime where
  "fresh_runtime = \<lparr>started_threads = [], joined_threads = []\<rparr>"

definition unreachable_env :: stream_env where
  "unreachable_env =
     \<lparr>device_open = None,
      ssl_context = (\<lambda>cafile. None),
      create_connection = (\<lambda>h p. Some (OSError ''[Errno 111] Connection refused'')),
      wrap_socket = (\<lambda>h. None),
      mic_read = (\<lambda>i. Inr []),
      sendall = (\<lambda>i data. None),
      running_checks = 0\<rparr>"

definition no_device_env :: stream_env where
  "no_device_env =
     \<lparr>device_open = Some (OSError ''[Errno -9996] Invalid input device (no default output device)''),
      ssl_context = (\<lambda>cafile. None),
      create_connection = (\<lambda>h p. None),
      wrap_socket = (\<lambda>h. None),
      mic_read = (\<lambda>i. Inr []),
      sendall = (\<lambda>i data. None),
      running_checks = 0\<rparr>"

text \<open>
  Collaborators for the listener: \<^verbatim>\<open>int\<close> accepts two port strings, the receiver's
  constructor rejects a port above 65535, its \<^verbatim>\<open>start\<close> reaches one host only, and
  every track exists and loads. The application starts idle with the player of
  \<^verbatim>\<open>build\<close>.
\<close>

definition example_env :: "(string \<times> int) listen_env" where
  "example_env =
     \<lparr>str_strip = (\<lambda>s. s),
      int_of_str = (\<lambda>s. if s = ''8443'' then Inr 8443
                         else if s = ''70000'' then Inr 70000
                         else Inl (ValueError ''invalid literal for int() with base 10'')),
      receiver_init = (\<lambda>h n. if 0 \<le> n \<and> n \<le> 65535 then Inr (h, n)
                              else Inl (ValueError ''port out of range'')),
      receiver_start = (\<lambda>r. if fst r = ''relay.example'' then Inr r
                             else Inl (OSError ''[Errno 111] Connection refused'')),
      path_exists = (\<lambda>path. True),
      sound_load = (\<lambda>path. True)\<rparr>"

definition idle_app :: "(string \<times> int) LiveAzaanApp" where
  "idle_app =
     \<lparr>stream_status = ''Idle'', receiver = None,
      offline_player = OfflineAzaanPlayer_init ''assets''\<rparr>"

section \<open>The priority registry\<close>

subsection \<open>Sorting by the dataclass order\<close>

lemma mset_py_sorted: "mset (py_sorted xs) = mset xs"
  by (simp add: py_sorted_def)

lemma set_py_sorted: "set (py_sorted xs) = set xs"
  by (simp add: py_sorted_def)

lemma sorted_py_sorted: "sorted (map order_tuple (py_sorted xs))"
  by (simp add: py_sorted_def)

lemma order_tuple_le:
  "order_tuple a \<le> order_tuple b \<longleftrightarrow>
     priority a < priority b \<or>
     priority a = priority b \<and>
       (masjid_id a < masjid_id b \<or> masjid_id a = masjid_id b \<and> enabled a \<le> enabled b)"
  by (auto simp: order_tuple_def less_eq_prod_def less_prod_def)

lemma sorted_wrt_py_sorted:
  "sorted_wrt (\<lambda>a b. priority a < priority b \<or>
                     priority a = priority b \<and> masjid_id a \<le> masjid_id b)
     (py_sorted xs)"
proof -
  have "sorted_wrt (\<lambda>a b. order_tuple a \<le> order_tuple b) (py_sorted xs)"
    using sorted_py_sorted [of xs] by (simp add: sorted_map)
  then show ?thesis
    by (rule sorted_wrt_mono_rel [rotated]) (auto simp: order_tuple_le)
qed

text \<open>
  In a list sorted by the dataclass order, an element before which nothing satisfies
  \<open>Q\<close> is below every element that satisfies \<open>Q\<close>.
\<close>

lemma sorted_order_tuple_nth:
  assumes "sorted (map order_tuple xs)" "i < length xs" "p \<in> set xs"
    "\<forall>j < i. \<not> Q (xs ! j)" "Q p"
  shows "order_tuple (xs ! i) \<le> order_tuple p"
proof -
  from assms(3) obtain k where k: "k < length xs" "xs ! k = p"
    by (auto simp: in_set_conv_nth)
  with assms(4,5) have "i \<le> k"
    by (metis not_le_imp_less)
  with assms(1) k(1) have "map order_tuple xs ! i \<le> map order_tuple xs ! k"
    by (simp add: sorted_iff_nth_mono del: nth_map)
  with k assms(2) show ?thesis by simp
qed

subsection \<open>Selection\<close>

lemma first_live_find:
  "first_live xs live = map_option masjid_id (find (qualifies live) xs)"
  by (induction xs) (simp_all add: qualifies_def)

lemma first_live_None:
  "first_live xs live = None \<longleftrightarrow> (\<forall>p \<in> set xs. \<not> qualifies live p)"
  by (auto simp: first_live_find find_None_iff)

lemma first_live_Some:
  "first_live xs live = Some g \<longleftrightarrow>
     (\<exists>i < length xs. g = masjid_id (xs ! i) \<and> qualifies live (xs ! i) \<and>
        (\<forall>j < i. \<not> qualifies live (xs ! j)))"
  by (auto simp: first_live_find find_Some_iff)

lemma first_live_least:
  assumes "first_live (py_sorted xs) live = Some g"
  shows "\<exists>e \<in> set xs. masjid_id e = g \<and> qualifies live e \<and>
           (\<forall>p \<in> set xs. qualifies live p \<longrightarrow> order_tuple e \<le> order_tuple p)"
proof -
  let ?s = "py_sorted xs"
  from assms obtain i where i: "i < length ?s" "g = masjid_id (?s ! i)"
      "qualifies live (?s ! i)" "\<forall>j < i. \<not> qualifies live (?s ! j)"
    by (auto simp: first_live_Some)
  have mem: "?s ! i \<in> set xs"
    using i(1) nth_mem [of i ?s] by (simp add: set_py_sorted)
  have "order_tuple (?s ! i) \<le> order_tuple p" if "p \<in> set xs" "qualifies live p" for p
  proof -
    have "p \<in> set ?s" using that(1) by (simp add: set_py_sorted)
    then show ?thesis
      using sorted_order_tuple_nth [OF sorted_py_sorted i(1) _ i(4)] that(2) by blast
  qed
  with mem i(2,3) show ?thesis by blast
qed

text \<open>
  Claim C1. For every registry and every collection of live ids,
  \<open>highest_priority_live\<close> returns nothing exactly when no entry is enabled and live,
  and otherwise returns the id of the first enabled and live entry of the registry in
  sort order: no entry before it in the sorted list qualifies, and its priority value
  is the lowest among the qualifying entries. With \<open>masjidA\<close> at priority 1 and
  \<open>masjidB\<close> at priority 2, both enabled, it returns \<open>masjidB\<close> when only \<open>masjidB\<close> is
  live and \<open>masjidA\<close> when both are.
\<close>

theorem highest_priority_live_first:
  "(fst (highest_priority_live self live) = None \<longleftrightarrow>
      (\<forall>p \<in> set (priority_list self). \<not> qualifies live p)) \<and>
   (fst (highest_priority_live self live) = Some g \<longleftrightarrow>
      (\<exists>i < length (py_sorted (priority_list self)).
         g = masjid_id (py_sorted (priority_list self) ! i) \<and>
         qualifies live (py_sorted (priority_list self) ! i) \<and>
         (\<forall>j < i. \<not> qualifies live (py_sorted (priority_list self) ! j)))) \<and>
   (fst (highest_priority_live self live) = Some g \<longrightarrow>
      (\<exists>e \<in> set (priority_list self). masjid_id e = g \<and> qualifies live e \<and>
         (\<forall>p \<in> set (priority_list self). qualifies live p \<longrightarrow> priority e \<le> priority p))) \<and>
   mset (py_sorted (priority_list self)) = mset (priority_list self) \<and>
   sorted (map order_tuple (py_sorted (priority_list self))) \<and>
   fst (highest_priority_live registry_AB [''masjidB'']) = Some ''masjidB'' \<and>
   fst (highest_priority_live registry_AB [''masjidA'', ''masjidB'']) = Some ''masjidA''"
proof -
  have none: "fst (highest_priority_live self live) = None \<longleftrightarrow>
      (\<forall>p \<in> set (priority_list self). \<not> qualifies live p)"
    by (simp add: highest_priority_live_def first_live_None set_py_sorted)
  have some: "fst (highest_priority_live self live) = Some g \<longleftrightarrow>
      (\<exists>i < length (py_sorted (priority_list self)).
         g = masjid_id (py_sorted (priority_list self) ! i) \<and>
         qualifies live (py_sorted (priority_list self) ! i) \<and>
         (\<forall>j < i. \<not> qualifies live (py_sorted (priority_list self) ! j)))"
    by (simp add: highest_priority_live_def first_live_Some)
  have least: "fst (highest_priority_live self live) = Some g \<longrightarrow>
      (\<exists>e \<in> set (priority_list self). masjid_id e = g \<and> qualifies live e \<and>
         (\<forall>p \<in> set (priority_list self). qualifies live p \<longrightarrow> priority e \<le> priority p))"
  proof
    assume "fst (highest_priority_live self live) = Some g"
    then have "first_live (py_sorted (priority_list self)) live = Some g"
      by (simp add: highest_priority_live_def)
    from first_live_least [OF this] obtain e where e: "e \<in> set (priority_list self)"
        "masjid_id e = g" "qualifies live e"
        "\<forall>p \<in> set (priority_list self). qualifies live p \<longrightarrow> order_tuple e \<le> order_tuple p"
      by blast
    have "\<forall>p \<in> set (priority_list self). qualifies live p \<longrightarrow> priority e \<le> priority p"
    proof (intro ballI impI)
      fix p assume "p \<in> set (priority_list self)" "qualifies live p"
      with e(4) have "order_tuple e \<le> order_tuple p" by blast
      then show "priority e \<le> priority p" by (auto simp: order_tuple_le)
    qed
    with e(1-3) show "\<exists>e \<in> set (priority_list self). masjid_id e = g \<and> qualifies live e \<and>
         (\<forall>p \<in> set (priority_list self). qualifies live p \<longrightarrow> priority e \<le> priority p)"
      by blast
  qed
  have b: "fst (highest_priority_live registry_AB [''masjidB'']) = Some ''masjidB''"
    by (simp add: highest_priority_live_def registry_AB_def py_sorted_def order_tuple_def)
  have ab: "fst (highest_priority_live registry_AB [''masjidA'', ''masjidB'']) = Some ''masjidA''"
    by (simp add: highest_priority_live_def registry_AB_def py_sorted_def order_tuple_def)
  from none some least b ab show ?thesis
    by (simp only: mset_py_sorted sorted_py_sorted simp_thms)
qed

text \<open>
  The theorem at the registry of the scenario: with only \<open>masjidB\<close> live the result is
  \<open>masjidB\<close>, found at index 1 of the sorted list, and with no live id and with
  \<open>masjidB\<close> disabled the result is nothing.
\<close>

theorem highest_priority_live_first_witness:
  "fst (highest_priority_live registry_AB [''masjidB'']) = Some ''masjidB'' \<and>
   (\<exists>e \<in> set (priority_list registry_AB). masjid_id e = ''masjidB'' \<and>
      qualifies [''masjidB''] e) \<and>
   fst (highest_priority_live registry_AB []) = None \<and>
   fst (highest_priority_live (set_enabled registry_AB ''masjidB'' False) [''masjidB'']) = None"
proof -
  have b: "fst (highest_priority_live registry_AB [''masjidB'']) = Some ''masjidB''"
    by (simp add: highest_priority_live_def registry_AB_def py_sorted_def order_tuple_def)
  have n1: "\<forall>p \<in> set (priority_list registry_AB). \<not> qualifies [] p"
    by (simp add: qualifies_def)
  have n2: "\<forall>p \<in> set (priority_list (set_enabled registry_AB ''masjidB'' False)).
      \<not> qualifies [''masjidB''] p"
    by (simp add: qualifies_def set_enabled_def registry_AB_def)
  show ?thesis
    using b n1 n2
      highest_priority_live_first [of registry_AB "[''masjidB'']" "''masjidB''"]
      highest_priority_live_first [of registry_AB "[]" "''masjidB''"]
      highest_priority_live_first
        [of "set_enabled registry_AB ''masjidB'' False" "[''masjidB'']" "''masjidB''"]
    by blast
qed

subsection \<open>Export\<close>

text \<open>
  Claim C5. For every registry, \<open>as_dicts\<close> returns the dicts of the stored entries,
  each entry once, ordered by priority ascending with ties broken by id ascending;
  the entries \<open>(2, b)\<close>, \<open>(1, c)\<close>, \<open>(1, a)\<close> are exported in the order \<open>a\<close>, \<open>c\<close>, \<open>b\<close>,
  both when they are stored in that order and when they are entered by
  \<open>set_priority\<close> in that order.
\<close>

theorem as_dicts_sorted:
  "(\<exists>s. fst (as_dicts self) = map entry_dict s \<and> mset s = mset (priority_list self) \<and>
      sorted_wrt (\<lambda>a b. priority a < priority b \<or>
                        priority a = priority b \<and> masjid_id a \<le> masjid_id b) s) \<and>
   fst (as_dicts (set_priority (set_priority (set_priority PriorityManager_init
          ''b'' 2 True) ''c'' 1 True) ''a'' 1 True)) =
     [[(''masjid_id'', PyStr ''a''), (''priority'', PyInt 1), (''enabled'', PyBool True)],
      [(''masjid_id'', PyStr ''c''), (''priority'', PyInt 1), (''enabled'', PyBool True)],
      [(''masjid_id'', PyStr ''b''), (''priority'', PyInt 2), (''enabled'', PyBool True)]] \<and>
   fst (as_dicts \<lparr>priority_list =
         [\<lparr>priority = 2, masjid_id = ''b'', enabled = True\<rparr>,
          \<lparr>priority = 1, masjid_id = ''c'', enabled = True\<rparr>,
          \<lparr>priority = 1, masjid_id = ''a'', enabled = True\<rparr>]\<rparr>) =
     [[(''masjid_id'', PyStr ''a''), (''priority'', PyInt 1), (''enabled'', PyBool True)],
      [(''masjid_id'', PyStr ''c''), (''priority'', PyInt 1), (''enabled'', PyBool True)],
      [(''masjid_id'', PyStr ''b''), (''priority'', PyInt 2), (''enabled'', PyBool True)]]"
proof -
  have "\<exists>s. fst (as_dicts self) = map entry_dict s \<and> mset s = mset (priority_list self) \<and>
      sorted_wrt (\<lambda>a b. priority a < priority b \<or>
                        priority a = priority b \<and> masjid_id a \<le> masjid_id b) s"
    using mset_py_sorted [of "priority_list self"] sorted_wrt_py_sorted [of "priority_list self"]
    by (intro exI [of _ "py_sorted (priority_list self)"]) (simp add: as_dicts_def)
  moreover have "fst (as_dicts (set_priority (set_priority (set_priority PriorityManager_init
          ''b'' 2 True) ''c'' 1 True) ''a'' 1 True)) =
     [[(''masjid_id'', PyStr ''a''), (''priority'', PyInt 1), (''enabled'', PyBool True)],
      [(''masjid_id'', PyStr ''c''), (''priority'', PyInt 1), (''enabled'', PyBool True)],
      [(''masjid_id'', PyStr ''b''), (''priority'', PyInt 2), (''enabled'', PyBool True)]]"
    by (simp add: as_dicts_def set_priority_def PriorityManager_init_def py_sorted_def
        order_tuple_def entry_dict_def)
  moreover have "fst (as_dicts \<lparr>priority_list =
         [\<lparr>priority = 2, masjid_id = ''b'', enabled = True\<rparr>,
          \<lparr>priority = 1, masjid_id = ''c'', enabled = True\<rparr>,
          \<lparr>priority = 1, masjid_id = ''a'', enabled = True\<rparr>]\<rparr>) =
     [[(''masjid_id'', PyStr ''a''), (''priority'', PyInt 1), (''enabled'', PyBool True)],
      [(''masjid_id'', PyStr ''c''), (''priority'', PyInt 1), (''enabled'', PyBool True)],
      [(''masjid_id'', PyStr ''b''), (''priority'', PyInt 2), (''enabled'', PyBool True)]]"
    by (simp add: as_dicts_def py_sorted_def order_tuple_def entry_dict_def)
  ultimately show ?thesis by blast
qed

subsection \<open>The uniqueness invariant\<close>

lemma map_masjid_id_set_enabled_loop:
  "map masjid_id (set_enabled_loop xs mid en) = map masjid_id xs"
  by (induction xs) simp_all

lemma map_priority_set_enabled_loop:
  "map priority (set_enabled_loop xs mid en) = map priority xs"
  by (induction xs) simp_all

lemma set_enabled_loop_absent:
  "mid \<notin> masjid_id ` set xs \<Longrightarrow> set_enabled_loop xs mid en = xs"
  by (induction xs) auto

lemma distinct_ids_py_sorted:
  "distinct (map masjid_id (py_sorted xs)) = distinct (map masjid_id xs)"
proof -
  have "mset (map masjid_id (py_sorted xs)) = mset (map masjid_id xs)"
    by (simp add: mset_py_sorted)
  then show ?thesis by (rule mset_eq_imp_distinct_iff)
qed

lemma unique_ids_set_priority:
  "unique_ids self \<Longrightarrow> unique_ids (set_priority self mid prio en)"
  by (auto simp: unique_ids_def set_priority_def distinct_ids_py_sorted distinct_map_filter)

lemma unique_ids_set_enabled:
  "unique_ids self \<Longrightarrow> unique_ids (set_enabled self mid en)"
  by (simp add: unique_ids_def set_enabled_def map_masjid_id_set_enabled_loop)

lemma filter_set_priority:
  "filter (\<lambda>p. masjid_id p = mid) (priority_list (set_priority self mid prio en)) =
     [\<lparr>priority = prio, masjid_id = mid, enabled = en\<rparr>]"
proof -
  have "filter (\<lambda>p. masjid_id p = mid) (filter (\<lambda>p. masjid_id p \<noteq> mid) xs) = []"
    for xs :: "MasjidPriority list"
    by (induction xs) simp_all
  then show ?thesis
    by (simp add: set_priority_def py_sorted_def filter_sort)
qed

text \<open>
  Claim C6. Both mutators preserve the invariant that no two entries share an id:
  \<open>set_priority\<close> and \<open>set_enabled\<close> map a registry with unique ids to a registry with
  unique ids. \<open>set_enabled\<close> keeps the ids and the priorities of the list as they are
  and changes nothing when the id is absent. After two calls of \<open>set_priority\<close> for
  the same id, from any registry, the entries with that id are exactly one: the entry
  of the second call.
\<close>

theorem registry_unique_ids_preserved:
  "(unique_ids self \<longrightarrow> unique_ids (set_priority self mid prio en)) \<and>
   (unique_ids self \<longrightarrow> unique_ids (set_enabled self mid en)) \<and>
   (mid \<notin> masjid_id ` set (priority_list self) \<longrightarrow> set_enabled self mid en = self) \<and>
   map masjid_id (priority_list (set_enabled self mid en)) = map masjid_id (priority_list self) \<and>
   map priority (priority_list (set_enabled self mid en)) = map priority (priority_list self) \<and>
   filter (\<lambda>p. masjid_id p = mid)
       (priority_list (set_priority (set_priority self mid prio1 en1) mid prio2 en2)) =
     [\<lparr>priority = prio2, masjid_id = mid, enabled = en2\<rparr>]"
proof -
  have "set_enabled self mid en = self" if "mid \<notin> masjid_id ` set (priority_list self)"
    using that by (simp add: set_enabled_def set_enabled_loop_absent)
  moreover have "map masjid_id (priority_list (set_enabled self mid en)) =
      map masjid_id (priority_list self)"
    by (simp add: set_enabled_def map_masjid_id_set_enabled_loop)
  moreover have "map priority (priority_list (set_enabled self mid en)) =
      map priority (priority_list self)"
    by (simp add: set_enabled_def map_priority_set_enabled_loop)
  ultimately show ?thesis
    using unique_ids_set_priority [of self mid prio en] unique_ids_set_enabled [of self mid en]
      filter_set_priority [of mid "set_priority self mid prio1 en1" prio2 en2]
    by blast
qed

text \<open>
  The theorem at a registry holding \<open>a\<close> and \<open>x\<close>: the invariant holds before and after
  each mutator, disabling the absent id \<open>y\<close> changes nothing, and setting the
  priority of \<open>x\<close> to 5 and then to 0 leaves one entry for \<open>x\<close>, with priority 0.
\<close>

theorem registry_unique_ids_preserved_witness:
  "unique_ids registry_X \<and> unique_ids (set_priority registry_X ''x'' 7 True) \<and>
   unique_ids (set_enabled registry_X ''x'' False) \<and>
   ''y'' \<notin> masjid_id ` set (priority_list registry_X) \<and>
   set_enabled registry_X ''y'' False = registry_X \<and>
   priority_list (set_priority (set_priority registry_X ''x'' 5 True) ''x'' 0 True) =
     [\<lparr>priority = 0, masjid_id = ''x'', enabled = True\<rparr>,
      \<lparr>priority = 1, masjid_id = ''a'', enabled = True\<rparr>]"
proof -
  have u: "unique_ids registry_X" by (simp add: unique_ids_def registry_X_def)
  have y: "''y'' \<notin> masjid_id ` set (priority_list registry_X)" by (simp add: registry_X_def)
  have l: "priority_list (set_priority (set_priority registry_X ''x'' 5 True) ''x'' 0 True) =
     [\<lparr>priority = 0, masjid_id = ''x'', enabled = True\<rparr>,
      \<lparr>priority = 1, masjid_id = ''a'', enabled = True\<rparr>]"
    by (simp add: set_priority_def registry_X_def py_sorted_def order_tuple_def)
  show ?thesis
    using u y l
      registry_unique_ids_preserved
        [where self = registry_X and mid = "''x''" and prio = 7 and en = True]
      registry_unique_ids_preserved
        [where self = registry_X and mid = "''x''" and prio = 7 and en = False]
      registry_unique_ids_preserved [where self = registry_X and mid = "''y''" and en = False]
    by simp
qed

subsection \<open>The queries leave the registry alone\<close>

text \<open>
  Claim C10. \<open>highest_priority_live\<close>, with any live ids, and \<open>as_dicts\<close> return the
  manager they were called on: the stored list has the same entries, in the same
  stored order, with the same field values.
\<close>

theorem registry_queries_read_only:
  "snd (highest_priority_live self live_masjid_ids) = self \<and> snd (as_dicts self) = self"
  by (simp add: highest_priority_live_def as_dicts_def)

section \<open>The noise conditioner\<close>

subsection \<open>Evaluating the loudness\<close>

text \<open>
  The recursive equations of \<open>isqrt\<close>, \<open>samples\<close> and the frame loop are replaced
  by conditional ones, so that the simplifier unfolds them only where the test is decided.
\<close>

lemma isqrt_0: "isqrt 0 = 0" by simp

lemma isqrt_step:
  "n \<noteq> 0 \<Longrightarrow> isqrt n = (if (2 * isqrt (n div 4) + 1) * (2 * isqrt (n div 4) + 1) \<le> n
       then 2 * isqrt (n div 4) + 1 else 2 * isqrt (n div 4))"
  by (subst isqrt.simps) (simp add: Let_def)

declare isqrt.simps [simp del]

lemma samples_Nil: "samples w [] = []" by simp

lemma samples_Cons:
  "w \<noteq> 0 \<Longrightarrow> data \<noteq> [] \<Longrightarrow> samples w data = raw_sample (take w data) # samples w (drop w data)"
  by (subst samples.simps) simp

declare samples.simps [simp del]
declare rnnoise_loop.simps [simp del]

lemma rms_350: "audioop_rms exact_rms_value [0x5E, 0x01, 0x5E, 0x01] 2 = Inr 350"
  by (simp add: audioop_rms_def exact_rms_value_def samples_Cons samples_Nil raw_sample_def
      isqrt_step isqrt_0
      numeral_2_eq_2 [symmetric])

lemma rms_349: "audioop_rms exact_rms_value [0x5D, 0x01, 0xA3, 0xFE] 2 = Inr 349"
  by (simp add: audioop_rms_def exact_rms_value_def samples_Cons samples_Nil raw_sample_def
      isqrt_step isqrt_0
      numeral_2_eq_2 [symmetric])

lemma rms_351: "audioop_rms exact_rms_value [0x5F, 0x01, 0x5F, 0x01] 2 = Inr 351"
  by (simp add: audioop_rms_def exact_rms_value_def samples_Cons samples_Nil raw_sample_def
      isqrt_step isqrt_0
      numeral_2_eq_2 [symmetric])

text \<open>
  \<open>samples\<close> decodes the whole fragment: a fragment of whole samples gives one value
  for each \<open>w\<close> bytes.
\<close>

lemma length_samples:
  "0 < w \<Longrightarrow> length data mod w = 0 \<Longrightarrow> length (samples w data) = length data div w"
proof (induction w data rule: samples.induct)
  case (1 w data)
  show ?case
  proof (cases "data = []")
    case True
    then show ?thesis by (simp add: samples_Nil)
  next
    case False
    with "1.prems" have ge: "w \<le> length data"
      by (metis length_greater_0_conv mod_less not_le_imp_less less_numeral_extra(3))
    then have "(length data - w) mod w = 0"
      using "1.prems"(2) by (simp add: le_mod_geq)
    with "1.IH" "1.prems"(1) False have "length (samples w (drop w data)) = (length data - w) div w"
      by simp
    moreover have "length data div w = Suc ((length data - w) div w)"
      using ge "1.prems"(1) by (simp add: le_div_geq)
    ultimately show ?thesis
      using "1.prems"(1) False by (simp add: samples_Cons)
  qed
qed

subsection \<open>The frame loop of the neural mode\<close>

lemma partial_frame_drop:
  "partial_frame fs data = drop (length data - length data mod fs) data"
proof -
  have "length data div fs * fs = length data - length data mod fs"
    by (simp add: minus_mod_eq_div_mult)
  then show ?thesis by (simp add: partial_frame_def)
qed

lemma length_partial_frame: "length (partial_frame fs data) = length data mod fs"
  by (simp add: partial_frame_drop)

lemma rnnoise_loop_frames:
  assumes fs: "0 < fs"
    and ok: "\<forall>f \<in> set (full_frames fs data). pf f = Inr (g f)"
  shows "k \<le> length data div fs \<Longrightarrow>
     rnnoise_loop pf fs data (k * fs) cleaned =
       Inr (cleaned @ concat (map (\<lambda>j. g (take fs (drop (j * fs) data))) [k ..< length data div fs])
            @ partial_frame fs data)"
proof (induction "length data div fs - k" arbitrary: k cleaned)
  case 0
  then have k: "k = length data div fs" by simp
  show ?case
  proof (cases "length data \<le> k * fs")
    case True
    then have "partial_frame fs data = []" by (simp add: partial_frame_def k)
    with True show ?thesis
      by (subst rnnoise_loop.simps) (simp add: k)
  next
    case False
    then have lt: "k * fs < length data" by simp
    have r: "length data - k * fs = length data mod fs"
      by (simp add: k minus_div_mult_eq_mod)
    have "length data mod fs < fs" using fs by simp
    with r have short: "length data - k * fs < fs" by simp
    then have chunk: "take fs (drop (k * fs) data) = partial_frame fs data"
      by (simp add: partial_frame_def k)
    have next_ge: "length data \<le> k * fs + fs" using short by simp
    have "rnnoise_loop pf fs data (k * fs) cleaned =
        rnnoise_loop pf fs data (k * fs + fs) (cleaned @ partial_frame fs data)"
      using fs lt short chunk
      by (subst rnnoise_loop.simps) (simp add: Let_def length_partial_frame)
    also have "\<dots> = Inr (cleaned @ partial_frame fs data)"
      using next_ge by (subst rnnoise_loop.simps) simp
    finally show ?thesis by (simp add: k)
  qed
next
  case (Suc d)
  then have klt: "k < length data div fs" by simp
  then have "Suc k * fs \<le> length data div fs * fs"
    by (intro mult_le_mono1) simp
  also have "\<dots> \<le> length data" by simp
  finally have le: "k * fs + fs \<le> length data" by simp
  then have lt: "k * fs < length data" using fs by simp
  let ?chunk = "take fs (drop (k * fs) data)"
  have len: "length ?chunk = fs" using le by simp
  have "?chunk \<in> set (full_frames fs data)"
    using klt by (auto simp: full_frames_def)
  with ok have pf: "pf ?chunk = Inr (g ?chunk)" by blast
  have IH: "rnnoise_loop pf fs data (Suc k * fs) (cleaned @ g ?chunk) =
       Inr ((cleaned @ g ?chunk) @
            concat (map (\<lambda>j. g (take fs (drop (j * fs) data))) [Suc k ..< length data div fs])
            @ partial_frame fs data)"
    using Suc.hyps(2) klt by (intro Suc.hyps(1)) simp_all
  have "rnnoise_loop pf fs data (k * fs) cleaned =
      rnnoise_loop pf fs data (k * fs + fs) (cleaned @ g ?chunk)"
    using fs lt len pf by (subst rnnoise_loop.simps) (simp add: Let_def)
  also have "\<dots> = Inr ((cleaned @ g ?chunk) @
            concat (map (\<lambda>j. g (take fs (drop (j * fs) data))) [Suc k ..< length data div fs])
            @ partial_frame fs data)"
    using IH by (simp add: add.commute)
  finally show ?case using klt by (simp add: upt_conv_Cons)
qed

lemma reduce_rnnoise_frames:
  assumes "0 < sample_width self"
    and "\<forall>f \<in> set (full_frames (nat (480 * sample_width self)) data). pf f = Inr (g f)"
  shows "reduce_rnnoise self pf data =
     Inr (concat (map g (full_frames (nat (480 * sample_width self)) data))
          @ partial_frame (nat (480 * sample_width self)) data)"
proof -
  have fs: "0 < nat (480 * sample_width self)" using assms(1) by simp
  have "rnnoise_loop pf (nat (480 * sample_width self)) data (0 * nat (480 * sample_width self)) [] =
     Inr ([] @ concat (map (\<lambda>j. g (take (nat (480 * sample_width self))
                 (drop (j * nat (480 * sample_width self)) data)))
            [0 ..< length data div nat (480 * sample_width self)])
          @ partial_frame (nat (480 * sample_width self)) data)"
    by (rule rnnoise_loop_frames [OF fs assms(2)]) simp
  then show ?thesis
    using assms(1) by (simp add: reduce_rnnoise_def full_frames_def comp_def Let_def)
qed

lemma length_full_frame:
  "f \<in> set (full_frames fs data) \<Longrightarrow> length f = fs"
proof -
  assume "f \<in> set (full_frames fs data)"
  then obtain k where k: "k < length data div fs" "f = take fs (drop (k * fs) data)"
    by (auto simp: full_frames_def)
  then have "Suc k * fs \<le> length data div fs * fs"
    by (intro mult_le_mono1) simp
  also have "\<dots> \<le> length data" by simp
  finally have "k * fs + fs \<le> length data" by simp
  with k(2) show ?thesis by simp
qed

lemma length_concat_const:
  "\<forall>x \<in> set xs. length (h x) = n \<Longrightarrow> length (concat (map h xs)) = length xs * n"
  by (induction xs) simp_all

lemma reduce_rnnoise_length:
  assumes sw: "0 < sample_width self"
    and ok: "\<forall>f. length f = nat (480 * sample_width self) \<longrightarrow>
              (\<exists>out. pf f = Inr out \<and> length out = length f)"
  shows "\<exists>out. reduce_rnnoise self pf data = Inr out \<and> length out = length data"
proof -
  let ?fs = "nat (480 * sample_width self)"
  define g where "g f = (case pf f of Inr out \<Rightarrow> out | Inl e \<Rightarrow> [])" for f
  have g: "pf f = Inr (g f) \<and> length (g f) = ?fs" if "length f = ?fs" for f
    using ok that by (auto simp: g_def)
  have frames: "\<forall>f \<in> set (full_frames ?fs data). pf f = Inr (g f)"
    using g length_full_frame by blast
  have "\<forall>f \<in> set (full_frames ?fs data). length (g f) = ?fs"
    using g length_full_frame by blast
  then have "length (concat (map g (full_frames ?fs data))) = length (full_frames ?fs data) * ?fs"
    by (rule length_concat_const)
  then have "length (concat (map g (full_frames ?fs data)) @ partial_frame ?fs data) =
      length data div ?fs * ?fs + length data mod ?fs"
    by (simp add: length_partial_frame full_frames_def)
  then show ?thesis
    using reduce_rnnoise_frames [OF sw frames] by simp
qed

subsection \<open>The conditioner\<close>

text \<open>
  Claim C3. In energy-gate mode (no neural suppressor), for a non-empty chunk for
  which \<open>audioop.rms\<close> returns the loudness \<open>rms\<close>: if \<open>rms\<close> is strictly below the
  threshold the result is as many zero bytes as the chunk has, and if \<open>rms\<close> is at
  or above the threshold the result is the chunk itself. The loudness is one value,
  the library's root mean square of the samples of the entire chunk: the samples it
  is computed from cover every byte of the chunk. This holds for whatever the
  library's arithmetic returns.
\<close>

theorem reduce_noise_gate_threshold:
  "rn self = None \<and> audio_data \<noteq> [] \<and>
   audioop_rms rms_value audio_data (sample_width self) = Inr rms \<longrightarrow>
     (rms < gate_threshold self \<longrightarrow>
        reduce_noise rms_value self audio_data = Inr (replicate (length audio_data) 0)) \<and>
     (gate_threshold self \<le> rms \<longrightarrow> reduce_noise rms_value self audio_data = Inr audio_data) \<and>
     rms = rms_value (samples (nat (sample_width self)) audio_data) \<and>
     length (samples (nat (sample_width self)) audio_data) * nat (sample_width self) =
       length audio_data"
proof (intro impI, elim conjE)
  assume a: "rn self = None" "audio_data \<noteq> []"
    "audioop_rms rms_value audio_data (sample_width self) = Inr rms"
  have mute: "rms < gate_threshold self \<longrightarrow>
      reduce_noise rms_value self audio_data = Inr (replicate (length audio_data) 0)"
    using a by (simp add: reduce_noise_def reduce_noise_gate_def)
  have pass: "gate_threshold self \<le> rms \<longrightarrow>
      reduce_noise rms_value self audio_data = Inr audio_data"
    using a by (simp add: reduce_noise_def reduce_noise_gate_def)
  from a(2,3) have w: "1 \<le> sample_width self"
      "int (length audio_data) mod sample_width self = 0"
    and val: "rms = rms_value (samples (nat (sample_width self)) audio_data)"
    by (auto simp: audioop_rms_def split: if_splits)
  from w have pos: "0 < nat (sample_width self)" by simp
  from w have "int (length audio_data mod nat (sample_width self)) = 0"
    by (simp add: zmod_int)
  then have whole: "length audio_data mod nat (sample_width self) = 0" by simp
  from length_samples [OF pos whole] whole
  have cover: "length (samples (nat (sample_width self)) audio_data) * nat (sample_width self) =
      length audio_data"
    by (simp add: mod_0_imp_dvd)
  from mute pass val cover
  show "(rms < gate_threshold self \<longrightarrow>
        reduce_noise rms_value self audio_data = Inr (replicate (length audio_data) 0)) \<and>
     (gate_threshold self \<le> rms \<longrightarrow> reduce_noise rms_value self audio_data = Inr audio_data) \<and>
     rms = rms_value (samples (nat (sample_width self)) audio_data) \<and>
     length (samples (nat (sample_width self)) audio_data) * nat (sample_width self) =
       length audio_data"
    by (simp only: simp_thms)
qed

text \<open>
  The theorem at the default reducer (sample width 2, threshold 350) and three chunks
  of two samples each, of loudness 349, 350 and 351: the first is muted, the chunk at
  the threshold and the chunk above it pass unchanged.
\<close>

theorem reduce_noise_gate_threshold_witness:
  "reduce_noise exact_rms_value (NoiseReducer_init None 2 350) [0x5D, 0x01, 0xA3, 0xFE] = Inr [0, 0, 0, 0] \<and>
   reduce_noise exact_rms_value (NoiseReducer_init None 2 350) [0x5E, 0x01, 0x5E, 0x01] = Inr [0x5E, 0x01, 0x5E, 0x01] \<and>
   reduce_noise exact_rms_value (NoiseReducer_init None 2 350) [0x5F, 0x01, 0x5F, 0x01] = Inr [0x5F, 0x01, 0x5F, 0x01]"
proof -
  let ?R = "NoiseReducer_init None 2 350"
  have h: "rn ?R = None" "sample_width ?R = 2" "gate_threshold ?R = 350"
    by (simp_all add: NoiseReducer_init_def)
  have below: "(349::int) < gate_threshold ?R" and at: "gate_threshold ?R \<le> (350::int)"
    and above: "gate_threshold ?R \<le> (351::int)"
    by (simp_all add: h)
  have r349: "audioop_rms exact_rms_value [0x5D, 0x01, 0xA3, 0xFE] (sample_width ?R) = Inr 349"
    and r350: "audioop_rms exact_rms_value [0x5E, 0x01, 0x5E, 0x01] (sample_width ?R) = Inr 350"
    and r351: "audioop_rms exact_rms_value [0x5F, 0x01, 0x5F, 0x01] (sample_width ?R) = Inr 351"
    by (simp_all only: h rms_349 rms_350 rms_351)
  have ne: "[0x5D, 0x01, 0xA3, 0xFE] \<noteq> ([] :: bytes)" "[0x5E, 0x01, 0x5E, 0x01] \<noteq> ([] :: bytes)"
      "[0x5F, 0x01, 0x5F, 0x01] \<noteq> ([] :: bytes)"
    by simp_all
  have "reduce_noise exact_rms_value ?R [0x5D, 0x01, 0xA3, 0xFE] =
      Inr (replicate (length [0x5D, 0x01, 0xA3, 0xFE :: byte]) 0)"
    using reduce_noise_gate_threshold [where self = ?R and rms_value = exact_rms_value and
        audio_data = "[0x5D, 0x01, 0xA3, 0xFE]" and rms = 349] h(1) ne(1) r349 below
    by blast
  then have m: "reduce_noise exact_rms_value ?R [0x5D, 0x01, 0xA3, 0xFE] = Inr [0, 0, 0, 0]"
    by simp
  have p0: "reduce_noise exact_rms_value ?R [0x5E, 0x01, 0x5E, 0x01] = Inr [0x5E, 0x01, 0x5E, 0x01]"
    using reduce_noise_gate_threshold [where self = ?R and rms_value = exact_rms_value and
        audio_data = "[0x5E, 0x01, 0x5E, 0x01]" and rms = 350] h(1) ne(2) r350 at
    by blast
  have p1: "reduce_noise exact_rms_value ?R [0x5F, 0x01, 0x5F, 0x01] = Inr [0x5F, 0x01, 0x5F, 0x01]"
    using reduce_noise_gate_threshold [where self = ?R and rms_value = exact_rms_value and
        audio_data = "[0x5F, 0x01, 0x5F, 0x01]" and rms = 351] h(1) ne(3) r351 above
    by blast
  from m p0 p1 show ?thesis by (simp only: simp_thms)
qed

text \<open>
  Claim C4. In neural mode with a positive sample width, when the suppressor returns
  \<open>g f\<close> for every full frame \<open>f\<close> of the input, the output is the suppressor's
  outputs for the full frames, in order, followed by the trailing partial frame of the
  input (its last \<open>length mod frame_size\<close> bytes): the last bytes of the output are
  the last bytes of the input.
\<close>

theorem reduce_rnnoise_partial_frame:
  "rn self = Some pf \<and> 0 < sample_width self \<and>
   (\<forall>f \<in> set (full_frames (nat (480 * sample_width self)) audio_data). pf f = Inr (g f)) \<longrightarrow>
     (\<exists>out. reduce_noise rms_value self audio_data = Inr out \<and>
        out = concat (map g (full_frames (nat (480 * sample_width self)) audio_data)) @
              drop (length audio_data - length audio_data mod nat (480 * sample_width self))
                audio_data \<and>
        drop (length out - length audio_data mod nat (480 * sample_width self)) out =
          drop (length audio_data - length audio_data mod nat (480 * sample_width self))
            audio_data)"
proof (intro impI, elim conjE)
  let ?fs = "nat (480 * sample_width self)"
  assume rn: "rn self = Some pf" and sw: "0 < sample_width self"
    and ok: "\<forall>f \<in> set (full_frames ?fs audio_data). pf f = Inr (g f)"
  let ?out = "concat (map g (full_frames ?fs audio_data)) @
      drop (length audio_data - length audio_data mod ?fs) audio_data"
  have len: "length (drop (length audio_data - length audio_data mod ?fs) audio_data) =
      length audio_data mod ?fs"
    by simp
  have red: "reduce_noise rms_value self audio_data = Inr ?out"
  proof (cases "audio_data = []")
    case True
    then show ?thesis by (simp add: reduce_noise_def full_frames_def)
  next
    case False
    then show ?thesis
      using reduce_rnnoise_frames [OF sw ok] rn
      by (simp add: reduce_noise_def partial_frame_drop)
  qed
  have "drop (length ?out - length audio_data mod ?fs) ?out =
      drop (length audio_data - length audio_data mod ?fs) audio_data"
    using len by simp
  with red show "\<exists>out. reduce_noise rms_value self audio_data = Inr out \<and> out = ?out \<and>
        drop (length out - length audio_data mod ?fs) out =
          drop (length audio_data - length audio_data mod ?fs) audio_data"
    by blast
qed

lemma full_frames_example:
  "full_frames 960 (replicate 960 1 @ [7, 9, 11]) = [replicate 960 (1::byte)]"
  by (simp add: full_frames_def)

text \<open>
  The theorem at the default sample width (frames of 960 bytes), a suppressor that
  silences a frame, and an input of one full frame and three more bytes: the frame
  is silenced and the three bytes are kept.
\<close>

theorem reduce_rnnoise_partial_frame_witness:
  "reduce_noise exact_rms_value (NoiseReducer_init (Some zero_suppressor) 2 350) (replicate 960 1 @ [7, 9, 11]) =
     Inr (replicate 960 0 @ [7, 9, 11])"
proof -
  have h: "rn (NoiseReducer_init (Some zero_suppressor) 2 350) = Some zero_suppressor"
      "sample_width (NoiseReducer_init (Some zero_suppressor) 2 350) = 2"
    by (simp_all add: NoiseReducer_init_def)
  have ok: "\<forall>f \<in> set (full_frames (nat (480 * 2)) (replicate 960 1 @ [7, 9, 11])).
      zero_suppressor f = Inr (replicate (length f) 0)"
    by (simp add: zero_suppressor_def)
  show ?thesis
    using reduce_rnnoise_partial_frame
        [where self = "NoiseReducer_init (Some zero_suppressor) 2 350" and pf = zero_suppressor and
          audio_data = "replicate 960 1 @ [7, 9, 11]" and g = "\<lambda>f. replicate (length f) 0" and
          rms_value = exact_rms_value] ok
    by (simp add: h full_frames_example)
qed

text \<open>
  Claim C9, counterexample. With the default reducer in energy-gate mode (sample
  width 2), the one-byte input is not a whole number of samples and \<open>audioop.rms\<close>
  raises before any loudness is computed: \<open>reduce_noise\<close> fails instead of returning
  one byte.
\<close>

theorem reduce_noise_fails_on_partial_sample:
  "reduce_noise exact_rms_value (NoiseReducer_init None 2 350) [1] =
     Inl (AudioopError ''not a whole number of frames'')"
  by (simp add: reduce_noise_def NoiseReducer_init_def reduce_noise_gate_def audioop_rms_def)

lemma audioop_rms_ok:
  "1 \<le> w \<Longrightarrow> w \<le> 4 \<Longrightarrow> int (length data) mod w = 0 \<Longrightarrow> \<exists>r. audioop_rms rms_value data w = Inr r"
  by (simp add: audioop_rms_def)

lemma audioop_rms_error:
  "w < 1 \<or> 4 < w \<or> int (length data) mod w \<noteq> 0 \<Longrightarrow> \<exists>e. audioop_rms rms_value data w = Inl e"
  by (auto simp: audioop_rms_def)

text \<open>
  Claim C9, amended. The empty input returns the empty output in both modes. In
  energy-gate mode with a sample width from 1 to 4, an input that is a whole number
  of samples returns an output of the same length; a non-empty input that is not, or
  any non-empty input under another sample width, fails. In neural mode with a
  positive sample width, when the suppressor returns for every frame of the frame
  size a frame of the same size, the output has the length of the input.
\<close>

theorem reduce_noise_same_length:
  "reduce_noise rms_value self [] = Inr [] \<and>
   (rn self = None \<and> 1 \<le> sample_width self \<and> sample_width self \<le> 4 \<and>
    int (length audio_data) mod sample_width self = 0 \<longrightarrow>
      (\<exists>out. reduce_noise rms_value self audio_data = Inr out \<and> length out = length audio_data)) \<and>
   (rn self = None \<and> audio_data \<noteq> [] \<and>
    (sample_width self < 1 \<or> 4 < sample_width self \<or>
     int (length audio_data) mod sample_width self \<noteq> 0) \<longrightarrow>
      (\<exists>e. reduce_noise rms_value self audio_data = Inl e)) \<and>
   (rn self = Some pf \<and> 0 < sample_width self \<and>
    (\<forall>f. length f = nat (480 * sample_width self) \<longrightarrow>
       (\<exists>out. pf f = Inr out \<and> length out = length f)) \<longrightarrow>
      (\<exists>out. reduce_noise rms_value self audio_data = Inr out \<and> length out = length audio_data))"
proof -
  have empty: "reduce_noise rms_value self [] = Inr []"
    by (simp add: reduce_noise_def)
  have gate_ok: "rn self = None \<and> 1 \<le> sample_width self \<and> sample_width self \<le> 4 \<and>
      int (length audio_data) mod sample_width self = 0 \<longrightarrow>
      (\<exists>out. reduce_noise rms_value self audio_data = Inr out \<and> length out = length audio_data)"
  proof (intro impI, elim conjE)
    assume a: "rn self = None" "1 \<le> sample_width self" "sample_width self \<le> 4"
      "int (length audio_data) mod sample_width self = 0"
    from audioop_rms_ok [OF a(2-4), of rms_value] obtain r
      where "audioop_rms rms_value audio_data (sample_width self) = Inr r" by blast
    with a(1) show "\<exists>out. reduce_noise rms_value self audio_data = Inr out \<and>
        length out = length audio_data"
      by (simp add: reduce_noise_def reduce_noise_gate_def)
  qed
  have gate_err: "rn self = None \<and> audio_data \<noteq> [] \<and>
      (sample_width self < 1 \<or> 4 < sample_width self \<or>
       int (length audio_data) mod sample_width self \<noteq> 0) \<longrightarrow>
      (\<exists>e. reduce_noise rms_value self audio_data = Inl e)"
  proof (intro impI, elim conjE)
    assume a: "rn self = None" "audio_data \<noteq> []"
      "sample_width self < 1 \<or> 4 < sample_width self \<or>
       int (length audio_data) mod sample_width self \<noteq> 0"
    from audioop_rms_error [OF a(3), of rms_value] obtain e
      where "audioop_rms rms_value audio_data (sample_width self) = Inl e" by blast
    with a(1,2) show "\<exists>e. reduce_noise rms_value self audio_data = Inl e"
      by (simp add: reduce_noise_def reduce_noise_gate_def)
  qed
  have neural: "rn self = Some pf \<and> 0 < sample_width self \<and>
      (\<forall>f. length f = nat (480 * sample_width self) \<longrightarrow>
         (\<exists>out. pf f = Inr out \<and> length out = length f)) \<longrightarrow>
      (\<exists>out. reduce_noise rms_value self audio_data = Inr out \<and> length out = length audio_data)"
  proof (intro impI, elim conjE)
    assume a: "rn self = Some pf" "0 < sample_width self"
      "\<forall>f. length f = nat (480 * sample_width self) \<longrightarrow>
         (\<exists>out. pf f = Inr out \<and> length out = length f)"
    show "\<exists>out. reduce_noise rms_value self audio_data = Inr out \<and> length out = length audio_data"
    proof (cases "audio_data = []")
      case True
      then show ?thesis by (simp add: reduce_noise_def)
    next
      case False
      with a(1) reduce_rnnoise_length [OF a(2,3), of audio_data] show ?thesis
        by (simp add: reduce_noise_def)
    qed
  qed
  show ?thesis
    by (intro conjI) (rule empty, rule gate_ok, rule gate_err, rule neural)
qed

text \<open>
  The theorem at the default reducer: four bytes in energy-gate mode give four bytes,
  three bytes in energy-gate mode fail, and three bytes in neural mode give three.
\<close>

theorem reduce_noise_same_length_witness:
  "(\<exists>out. reduce_noise exact_rms_value (NoiseReducer_init None 2 350) [0x5E, 0x01, 0x5E, 0x01] = Inr out \<and>
      length out = 4) \<and>
   (\<exists>e. reduce_noise exact_rms_value (NoiseReducer_init None 2 350) [0x5E, 0x01, 0x5E] = Inl e) \<and>
   (\<exists>out. reduce_noise exact_rms_value (NoiseReducer_init (Some zero_suppressor) 2 350) [1, 2, 3] = Inr out \<and>
      length out = 3)"
proof -
  have h: "rn (NoiseReducer_init None 2 350) = None" "sample_width (NoiseReducer_init None 2 350) = 2"
      "rn (NoiseReducer_init (Some zero_suppressor) 2 350) = Some zero_suppressor"
      "sample_width (NoiseReducer_init (Some zero_suppressor) 2 350) = 2"
    by (simp_all add: NoiseReducer_init_def)
  have z: "\<forall>f. length f = nat (480 * 2) \<longrightarrow>
      (\<exists>out. zero_suppressor f = Inr out \<and> length out = length f)"
    by (simp add: zero_suppressor_def)
  have n: "Suc (Suc (Suc (Suc 0))) = 4" "Suc (Suc (Suc 0)) = 3"
    by simp_all
  show ?thesis
    using reduce_noise_same_length
        [where self = "NoiseReducer_init None 2 350" and audio_data = "[0x5E, 0x01, 0x5E, 0x01]" and
          pf = zero_suppressor and rms_value = exact_rms_value]
      reduce_noise_same_length
        [where self = "NoiseReducer_init None 2 350" and audio_data = "[0x5E, 0x01, 0x5E]" and
          pf = zero_suppressor and rms_value = exact_rms_value]
      reduce_noise_same_length
        [where self = "NoiseReducer_init (Some zero_suppressor) 2 350" and audio_data = "[1, 2, 3]" and
          pf = zero_suppressor and rms_value = exact_rms_value] z
    by (simp add: h n)
qed

section \<open>The broadcaster session\<close>

text \<open>
  Claim C7. \<open>start\<close> on a running session changes neither the session nor the
  threads of the process. On a session that is not running it sets the flag and
  starts one thread, and a second \<open>start\<close> right after it changes nothing: after two
  consecutive calls on a new session exactly one worker has been started. \<open>stop\<close> on
  a session that was never started (flag clear, no thread) joins nothing and leaves
  the session and the process as they were.
\<close>

theorem start_stop_idempotent:
  "(running self \<longrightarrow> LiveStreamSender_start self rt = (self, rt)) \<and>
   (\<not> running self \<longrightarrow>
      running (fst (LiveStreamSender_start self rt)) \<and>
      started_threads (snd (LiveStreamSender_start self rt)) =
        started_threads rt @ [length (started_threads rt)] \<and>
      LiveStreamSender_start (fst (LiveStreamSender_start self rt))
          (snd (LiveStreamSender_start self rt)) =
        LiveStreamSender_start self rt) \<and>
   started_threads (snd (LiveStreamSender_start
       (fst (LiveStreamSender_start (LiveStreamSender_init m h p) fresh_runtime))
       (snd (LiveStreamSender_start (LiveStreamSender_init m h p) fresh_runtime)))) = [0] \<and>
   (\<not> running self \<and> thread self = None \<longrightarrow> LiveStreamSender_stop self rt = (self, rt)) \<and>
   LiveStreamSender_stop (LiveStreamSender_init m h p) rt = (LiveStreamSender_init m h p, rt)"
  by (simp add: LiveStreamSender_start_def LiveStreamSender_stop_def LiveStreamSender_init_def
      fresh_runtime_def Let_def)

text \<open>
  The theorem at a new session for \<open>relay.example:8443\<close>: the first \<open>start\<close> makes it
  running, the second returns the same state with the single worker 0, and \<open>stop\<close>
  on the new session returns it unchanged.
\<close>

theorem start_stop_idempotent_witness:
  "running (fst (LiveStreamSender_start (LiveStreamSender_init None ''relay.example'' 8443)
      fresh_runtime)) \<and>
   LiveStreamSender_start
     (fst (LiveStreamSender_start (LiveStreamSender_init None ''relay.example'' 8443)
        fresh_runtime))
     (snd (LiveStreamSender_start (LiveStreamSender_init None ''relay.example'' 8443)
        fresh_runtime)) =
   ((LiveStreamSender_init None ''relay.example'' 8443)\<lparr>running := True, thread := Some 0\<rparr>,
    \<lparr>started_threads = [0], joined_threads = []\<rparr>) \<and>
   LiveStreamSender_stop (LiveStreamSender_init None ''relay.example'' 8443) fresh_runtime =
     (LiveStreamSender_init None ''relay.example'' 8443, fresh_runtime)"
proof -
  have n: "\<not> running (LiveStreamSender_init None ''relay.example'' 8443)"
      "thread (LiveStreamSender_init None ''relay.example'' 8443) = None"
    by (simp_all add: LiveStreamSender_init_def)
  have s: "LiveStreamSender_start (LiveStreamSender_init None ''relay.example'' 8443)
      fresh_runtime =
    ((LiveStreamSender_init None ''relay.example'' 8443)\<lparr>running := True, thread := Some 0\<rparr>,
     \<lparr>started_threads = [0], joined_threads = []\<rparr>)"
    by (simp add: LiveStreamSender_start_def LiveStreamSender_init_def fresh_runtime_def)
  show ?thesis
    using n s
      start_stop_idempotent [of "LiveStreamSender_init None ''relay.example'' 8443"
        fresh_runtime None "''relay.example''" 8443]
      start_stop_idempotent [of "fst (LiveStreamSender_start
          (LiveStreamSender_init None ''relay.example'' 8443) fresh_runtime)"
        "snd (LiveStreamSender_start
          (LiveStreamSender_init None ''relay.example'' 8443) fresh_runtime)"
        None "''relay.example''" 8443]
    by simp
qed

text \<open>
  Claim C8, evaluated. \<open>start\<close> does not look at the device or the network: on a new
  session it returns with the flag set and the worker started. The worker then fails:
  where the relay refuses the connection it ends with that \<open>OSError\<close> after releasing
  the device, and where the device does not open it ends with that \<open>OSError\<close> before
  the \<^verbatim>\<open>try\<close> block. Neither exception reaches the caller of \<open>start\<close>.
\<close>

theorem start_hides_connection_failure:
  "LiveStreamSender_start (LiveStreamSender_init None ''relay.example'' 8443) fresh_runtime =
     ((LiveStreamSender_init None ''relay.example'' 8443)\<lparr>running := True, thread := Some 0\<rparr>,
      \<lparr>started_threads = [0], joined_threads = []\<rparr>) \<and>
   run_stream rms_value unreachable_env
       ((LiveStreamSender_init None ''relay.example'' 8443)\<lparr>running := True, thread := Some 0\<rparr>) =
     \<lparr>worker_error = Some (OSError ''[Errno 111] Connection refused''),
      device_released = True, sent = []\<rparr> \<and>
   run_stream rms_value no_device_env
       ((LiveStreamSender_init None ''relay.example'' 8443)\<lparr>running := True, thread := Some 0\<rparr>) =
     \<lparr>worker_error =
        Some (OSError ''[Errno -9996] Invalid input device (no default output device)''),
      device_released = False, sent = []\<rparr>"
  by (simp add: LiveStreamSender_start_def LiveStreamSender_init_def fresh_runtime_def
      run_stream_def unreachable_env_def no_device_env_def)

section \<open>The listener's fallback\<close>

lemma py_lower_fajr: "py_lower ''fajr'' = ''fajr''"
  by (simp add: py_lower_def less_eq_char_def)

lemma play_fajr:
  assumes "tracks (offline_player a) = tracks (OfflineAzaanPlayer_init ''assets'')"
  shows "play_offline env a ''fajr'' =
     (if path_exists env ''assets/fajr.mp3''
      then Inr (a\<lparr>offline_player := (offline_player a)\<lparr>current_sound :=
                  (if sound_load env ''assets/fajr.mp3''
                   then Some \<lparr>source = ''assets/fajr.mp3'', playing = True\<rparr> else None)\<rparr>\<rparr>)
      else Inr (a\<lparr>stream_status := ''Offline track not found for prayer: fajr''\<rparr>))"
  using assms
  by (simp add: play_offline_def OfflineAzaanPlayer_play_def OfflineAzaanPlayer_init_def
      OfflineAzaanPlayer_stop_def py_lower_fajr split: option.split)

text \<open>
  Claim C2. When \<^verbatim>\<open>int(port)\<close>, the receiver's constructor or its \<open>start\<close> raises a
  \<open>ValueError\<close> or an \<open>OSError\<close>, \<open>listen_live\<close> sets the status to the failure message
  and continues as \<open>play_offline\<close> for \<open>fajr\<close>; when all three succeed it stores the
  started receiver and sets the status to \<open>Listening\<close>. With the track table of
  \<^verbatim>\<open>build\<close>, \<open>play_offline\<close> for \<open>fajr\<close> plays \<open>assets/fajr.mp3\<close> when the file exists and
  loads, and shows the not-found message when the file is absent.
\<close>

theorem listen_live_fallback:
  "(is_ValueError_or_OSError exc \<and> int_of_str env p = Inl exc \<longrightarrow>
      listen_live env self h p =
        play_offline env (self\<lparr>stream_status := ''Listen failed: '' @ exc_str exc\<rparr>) ''fajr'') \<and>
   (is_ValueError_or_OSError exc \<and> int_of_str env p = Inr n \<and>
    receiver_init env (str_strip env h) n = Inl exc \<longrightarrow>
      listen_live env self h p =
        play_offline env (self\<lparr>stream_status := ''Listen failed: '' @ exc_str exc\<rparr>) ''fajr'') \<and>
   (is_ValueError_or_OSError exc \<and> int_of_str env p = Inr n \<and>
    receiver_init env (str_strip env h) n = Inr r \<and> receiver_start env r = Inl exc \<longrightarrow>
      listen_live env self h p =
        play_offline env
          (self\<lparr>receiver := Some r, stream_status := ''Listen failed: '' @ exc_str exc\<rparr>)
          ''fajr'') \<and>
   (int_of_str env p = Inr n \<and> receiver_init env (str_strip env h) n = Inr r \<and>
    receiver_start env r = Inr r' \<longrightarrow>
      listen_live env self h p =
        Inr (self\<lparr>receiver := Some r', stream_status := ''Listening''\<rparr>)) \<and>
   (tracks (offline_player a) = tracks (OfflineAzaanPlayer_init ''assets'') \<and>
    path_exists env ''assets/fajr.mp3'' \<and> sound_load env ''assets/fajr.mp3'' \<longrightarrow>
      play_offline env a ''fajr'' =
        Inr (a\<lparr>offline_player := (offline_player a)\<lparr>current_sound :=
               Some \<lparr>source = ''assets/fajr.mp3'', playing = True\<rparr>\<rparr>\<rparr>)) \<and>
   (tracks (offline_player a) = tracks (OfflineAzaanPlayer_init ''assets'') \<and>
    \<not> path_exists env ''assets/fajr.mp3'' \<longrightarrow>
      play_offline env a ''fajr'' =
        Inr (a\<lparr>stream_status := ''Offline track not found for prayer: fajr''\<rparr>))"
proof -
  have play: "tracks (offline_player a) = tracks (OfflineAzaanPlayer_init ''assets'') \<and>
    path_exists env ''assets/fajr.mp3'' \<and> sound_load env ''assets/fajr.mp3'' \<longrightarrow>
      play_offline env a ''fajr'' =
        Inr (a\<lparr>offline_player := (offline_player a)\<lparr>current_sound :=
               Some \<lparr>source = ''assets/fajr.mp3'', playing = True\<rparr>\<rparr>\<rparr>)"
    by (simp add: play_fajr)
  have missing: "tracks (offline_player a) = tracks (OfflineAzaanPlayer_init ''assets'') \<and>
    \<not> path_exists env ''assets/fajr.mp3'' \<longrightarrow>
      play_offline env a ''fajr'' =
        Inr (a\<lparr>stream_status := ''Offline track not found for prayer: fajr''\<rparr>)"
    by (simp add: play_fajr)
  show ?thesis
    by (intro conjI) (simp_all add: listen_live_def listen_failed_def play missing)
qed

text \<open>
  The theorem at the example collaborators: a port that is not a number, a port the
  constructor rejects and a host that refuses the connection each end with the
  failure status and \<open>assets/fajr.mp3\<close> playing; the reachable host ends in
  \<open>Listening\<close>; and without the file the status is the not-found message.
\<close>

theorem listen_live_fallback_witness:
  "listen_live example_env idle_app ''relay.example'' ''abc'' =
     Inr (idle_app\<lparr>stream_status := ''Listen failed: invalid literal for int() with base 10'',
           offline_player := (OfflineAzaanPlayer_init ''assets'')\<lparr>current_sound :=
             Some \<lparr>source = ''assets/fajr.mp3'', playing = True\<rparr>\<rparr>\<rparr>) \<and>
   listen_live example_env idle_app ''relay.example'' ''70000'' =
     Inr (idle_app\<lparr>stream_status := ''Listen failed: port out of range'',
           offline_player := (OfflineAzaanPlayer_init ''assets'')\<lparr>current_sound :=
             Some \<lparr>source = ''assets/fajr.mp3'', playing = True\<rparr>\<rparr>\<rparr>) \<and>
   listen_live example_env idle_app ''down.example'' ''8443'' =
     Inr (idle_app\<lparr>receiver := Some (''down.example'', 8443),
           stream_status := ''Listen failed: [Errno 111] Connection refused'',
           offline_player := (OfflineAzaanPlayer_init ''assets'')\<lparr>current_sound :=
             Some \<lparr>source = ''assets/fajr.mp3'', playing = True\<rparr>\<rparr>\<rparr>) \<and>
   listen_live example_env idle_app ''relay.example'' ''8443'' =
     Inr (idle_app\<lparr>receiver := Some (''relay.example'', 8443), stream_status := ''Listening''\<rparr>) \<and>
   play_offline (example_env\<lparr>path_exists := (\<lambda>path. False)\<rparr>) idle_app ''fajr'' =
     Inr (idle_app\<lparr>stream_status := ''Offline track not found for prayer: fajr''\<rparr>)"
proof -
  have e: "str_strip example_env = (\<lambda>s. s)"
      "int_of_str example_env ''abc'' = Inl (ValueError ''invalid literal for int() with base 10'')"
      "int_of_str example_env ''70000'' = Inr 70000"
      "int_of_str example_env ''8443'' = Inr 8443"
      "receiver_init example_env ''relay.example'' 70000 = Inl (ValueError ''port out of range'')"
      "receiver_init example_env ''down.example'' 8443 = Inr (''down.example'', 8443)"
      "receiver_init example_env ''relay.example'' 8443 = Inr (''relay.example'', 8443)"
      "receiver_start example_env (''down.example'', 8443) =
         Inl (OSError ''[Errno 111] Connection refused'')"
      "receiver_start example_env (''relay.example'', 8443) = Inr (''relay.example'', 8443)"
      "path_exists example_env ''assets/fajr.mp3''" "sound_load example_env ''assets/fajr.mp3''"
    by (simp_all add: example_env_def)
  have t: "offline_player idle_app = OfflineAzaanPlayer_init ''assets''"
    by (simp add: idle_app_def)
  note th = listen_live_fallback [where env = example_env and self = idle_app]
  show ?thesis
    using
      th [where h = "''relay.example''" and p = "''abc''" and
          exc = "ValueError ''invalid literal for int() with base 10''" and
          a = "idle_app\<lparr>stream_status := ''Listen failed: invalid literal for int() with base 10''\<rparr>"]
      th [where h = "''relay.example''" and p = "''70000''" and n = 70000 and
          exc = "ValueError ''port out of range''" and
          a = "idle_app\<lparr>stream_status := ''Listen failed: port out of range''\<rparr>"]
      th [where h = "''down.example''" and p = "''8443''" and n = 8443 and
          r = "(''down.example'', 8443)" and
          exc = "OSError ''[Errno 111] Connection refused''" and
          a = "idle_app\<lparr>receiver := Some (''down.example'', 8443),
                 stream_status := ''Listen failed: [Errno 111] Connection refused''\<rparr>"]
      th [where h = "''relay.example''" and p = "''8443''" and n = 8443 and
          r = "(''relay.example'', 8443)" and r' = "(''relay.example'', 8443)"]
      listen_live_fallback [where env = "example_env\<lparr>path_exists := (\<lambda>path. False)\<rparr>" and
          a = idle_app]
    by (simp add: e t)
qed

end
